theory Spec2Isabelle
  imports Complex_Main
begin

section \<open>Strings: whitespace, stripping and the sentence splitter\<close>

text \<open>
  Python strings are sequences of code points; here a \<^typ>\<open>char\<close> stands for a code point
  below 256. \<open>is_space\<close> is \<open>str.isspace\<close> on one such code point, which is also what the
  regular-expression class \<open>\s\<close> matches on \<open>str\<close> patterns: TAB, LF, VT, FF, CR, the
  separators 0x1C to 0x1F, the blank, NEL (0x85) and NBSP (0xA0).
\<close>

definition is_space :: "char \<Rightarrow> bool" where
  "is_space c =
     (let n = (of_char c :: nat)
      in (9 \<le> n \<and> n \<le> 13) \<or> (28 \<le> n \<and> n \<le> 32) \<or> n = 133 \<or> n = 160)"

text \<open>\<open>str.strip()\<close> without argument: drops leading and trailing whitespace.\<close>

definition strip :: "string \<Rightarrow> string" where
  "strip s = rev (dropWhile is_space (rev (dropWhile is_space s)))"

text \<open>The character class \<open>[.!?]\<close>.\<close>

definition is_punct :: "char \<Rightarrow> bool" where
  "is_punct c = (c = CHR ''.'' \<or> c = CHR ''!'' \<or> c = CHR ''?'')"

text \<open>
  \<open>re.split(r'[.!?]+\s+', text)\<close>. The scan keeps the piece read so far in \<open>cur\<close>. At a
  character of \<open>[.!?]\<close> the pattern can only match if the whole run of such characters is
  followed by at least one whitespace character (both quantifiers are greedy, and giving
  back punctuation never helps, since the next character is then punctuation again); the
  match then covers the punctuation run and the whitespace run, and the piece ends. If
  the run is not followed by whitespace, no match starts inside it, and the run stays in
  the piece.
\<close>

function re_split :: "string \<Rightarrow> string \<Rightarrow> string list" where
  "re_split cur [] = [cur]"
| "re_split cur (c # cs) =
     (if is_punct c then
        (let after_punct = dropWhile is_punct cs;
             after_space = dropWhile is_space after_punct
         in if after_punct \<noteq> [] \<and> is_space (hd after_punct)
            then cur # re_split [] after_space
            else re_split (cur @ c # takeWhile is_punct cs) after_punct)
      else re_split (cur @ [c]) cs)"
  by pat_completeness auto
termination
  by (relation "measure (\<lambda>(cur, s). length s)")
     (auto simp: less_Suc_eq_le intro: le_trans [OF length_dropWhile_le])

text \<open>
  \<open>QAValidatorService._split_into_sentences\<close>:
  \<^verbatim>\<open>sentences = re.split(r'[.!?]+\s+', text)\<close>,
  \<^verbatim>\<open>return [s.strip() for s in sentences if s.strip()]\<close>.
\<close>

definition split_into_sentences :: "string \<Rightarrow> string list" where
  "split_into_sentences txt =
     map strip (filter (\<lambda>s. strip s \<noteq> []) (re_split [] txt))"


section \<open>Number formatting\<close>

definition digit_char :: "nat \<Rightarrow> char" where
  "digit_char n = char_of (48 + n)"

text \<open>\<open>str(n)\<close> for a non-negative integer, as the f-string \<open>{len(sentence_issues)}\<close> prints it.\<close>

fun str_nat :: "nat \<Rightarrow> string" where
  "str_nat n = (if n < 10 then [digit_char n] else str_nat (n div 10) @ [digit_char (n mod 10)])"

declare str_nat.simps [simp del]

text \<open>
  The format specification \<open>:.2f\<close> prints the decimal with two fractional digits that is
  nearest to the value, a tie going to the even last digit. Similarities are modelled as
  real numbers, so the tie is that of the real value.
\<close>

definition round_half_even :: "real \<Rightarrow> int" where
  "round_half_even x =
     (let f = \<lfloor>x\<rfloor>; r = x - of_int f
      in if r < 1 / 2 then f
         else if 1 / 2 < r then f + 1
         else if even f then f else f + 1)"

definition fmt_2f :: "real \<Rightarrow> string" where
  "fmt_2f x =
     (let n = nat (round_half_even (\<bar>x\<bar> * 100))
      in (if x < 0 then ''-'' else []) @ str_nat (n div 100) @ ''.'' @
         [digit_char (n mod 100 div 10), digit_char (n mod 10)])"

section \<open>The vector store (\<open>services/vector_store.py\<close>)\<close>

datatype py_error = ValueError | KeyError | AssertionError

text \<open>
  A chunk is a dictionary; \<open>chunk["chunk_id"]\<close> and \<open>chunk["text"]\<close> raise \<open>KeyError\<close> on a
  missing key, the other keys are read with \<open>chunk.get\<close> and a default. The chunker writes
  \<open>chunk_index\<close> as an integer, or as a string such as \<open>3_1\<close> for a piece of an oversized
  chunk.
\<close>

datatype index_key = IntKey int | StrKey string

record chunk =
  c_chunk_id :: "string option"
  c_chunk_index :: "index_key option"
  c_text :: "string option"
  c_text_length :: "int option"
  c_token_count :: "int option"

text \<open>The dictionary stored per index position, and a search result built on it.\<close>

record metadata =
  document_id :: string
  chunk_id :: string
  chunk_index :: index_key
  chunk_text :: string
  text_length :: int
  token_count :: int

record hit = metadata +
  similarity :: real
  distance :: real

text \<open>
  The library class \<open>faiss.IndexFlatL2\<close>: the dimension \<open>d\<close> it was created with and the
  stored vectors in insertion order; \<open>ntotal\<close> is their number. Vector components are
  modelled as real numbers.
\<close>

record faiss_index =
  d :: nat
  xb :: "real list list"

definition ntotal :: "faiss_index \<Rightarrow> nat" where
  "ntotal ix = length (xb ix)"

text \<open>
  \<open>np.array(rows, dtype=np.float32)\<close> on a list of lists of numbers: the empty list gives a
  one-dimensional array of shape \<open>(0,)\<close>, rows of one common length give a matrix, and rows
  of differing lengths raise \<open>ValueError\<close>.
\<close>

datatype ndarray = Array1 | Array2 nat nat "real list list"

definition np_array :: "real list list \<Rightarrow> py_error + ndarray" where
  "np_array rows =
     (case rows of
        [] \<Rightarrow> Inr Array1
      | r # rs \<Rightarrow>
          if list_all (\<lambda>r'. length r' = length r) rs
          then Inr (Array2 (length rows) (length r) rows)
          else Inl ValueError)"

text \<open>
  \<open>index.add(x)\<close> of the FAISS Python wrapper: \<^verbatim>\<open>n, d = x.shape\<close> (a \<open>ValueError\<close> when
  the array is not two-dimensional), \<^verbatim>\<open>assert d == self.d\<close>, then the rows are appended.
\<close>

definition IndexFlatL2_add :: "faiss_index \<Rightarrow> ndarray \<Rightarrow> py_error + faiss_index" where
  "IndexFlatL2_add ix x =
     (case x of
        Array1 \<Rightarrow> Inl ValueError
      | Array2 n m rows \<Rightarrow>
          if m \<noteq> d ix then Inl AssertionError
          else Inr (ix\<lparr>xb := xb ix @ rows\<rparr>))"

text \<open>Squared Euclidean distance, the metric of \<open>IndexFlatL2\<close>.\<close>

definition l2sqr :: "real list \<Rightarrow> real list \<Rightarrow> real" where
  "l2sqr x y = sum_list (map2 (\<lambda>a b. (a - b)\<^sup>2) x y)"

text \<open>
  \<open>index.search(x, k)\<close> for a one-row query: \<^verbatim>\<open>assert d == self.d\<close>, \<^verbatim>\<open>assert k > 0\<close>,
  then the exact \<open>k\<close> nearest stored vectors as (distance, position) pairs in ascending
  distance; when fewer than \<open>k\<close> vectors are stored the rest is padded with position \<open>-1\<close>
  (and the largest float as distance).
\<close>

definition FLT_MAX :: real where
  "FLT_MAX = (2 ^ 24 - 1) * 2 ^ 104"

definition IndexFlatL2_search :: "faiss_index \<Rightarrow> ndarray \<Rightarrow> int \<Rightarrow> py_error + (real \<times> int) list" where
  "IndexFlatL2_search ix x k =
     (case x of
        Array2 n m (q # _) \<Rightarrow>
          if m \<noteq> d ix \<or> k \<le> 0 then Inl AssertionError
          else
            (let scored = map (\<lambda>(i, v). (l2sqr q v, int i)) (enumerate 0 (xb ix));
                 found = take (nat k) (sort_key fst scored)
             in Inr (found @ replicate (nat k - length found) (FLT_MAX, - 1)))
      | _ \<Rightarrow> Inl ValueError)"

text \<open>
  The store object: the index and the metadata dictionary in memory, and what
  \<open>faiss.write_index\<close> and \<open>save_json\<close> last put on disk. The source keys the metadata by
  \<open>str(idx)\<close>; the model keys it by the integer itself (\<open>str\<close> is injective on integers and
  no other key is ever looked up).
\<close>

record vector_store =
  index :: faiss_index
  metadata :: "int \<rightharpoonup> metadata"
  disk_index :: "faiss_index option"
  disk_metadata :: "(int \<rightharpoonup> metadata) option"

text \<open>What the two writes at the end of an insert do: both succeed, or one of them raises.\<close>

datatype disk_outcome = WritesOk | WriteIndexFails | SaveJsonFails

text \<open>
  The dictionary that \<open>_add_to_faiss\<close> builds for the chunk at loop index \<open>i\<close>; \<open>None\<close>
  stands for the \<open>KeyError\<close> of \<open>chunk["chunk_id"]\<close> or \<open>chunk["text"]\<close>.
\<close>

definition chunk_metadata :: "string \<Rightarrow> nat \<Rightarrow> chunk \<Rightarrow> metadata option" where
  "chunk_metadata doc i c =
     (case c_chunk_id c of
        None \<Rightarrow> None
      | Some cid \<Rightarrow>
          (case c_text c of
             None \<Rightarrow> None
           | Some t \<Rightarrow>
               Some \<lparr>document_id = doc,
                     chunk_id = cid,
                     chunk_index = (case c_chunk_index c of None \<Rightarrow> IntKey (int i) | Some k \<Rightarrow> k),
                     chunk_text = t,
                     text_length = (case c_text_length c of None \<Rightarrow> int (length t) | Some n \<Rightarrow> n),
                     token_count = (case c_token_count c of None \<Rightarrow> 0 | Some n \<Rightarrow> n)\<rparr>))"

text \<open>
  The metadata loop of \<open>_add_to_faiss\<close>,
  \<^verbatim>\<open>for i, chunk in enumerate(chunks): self.metadata[str(start_idx + i)] = {...}\<close>.
  The dictionary is updated in place, so at a \<open>KeyError\<close> the entries written so far stay.
\<close>

fun store_metadata ::
  "string \<Rightarrow> nat \<Rightarrow> nat \<Rightarrow> chunk list \<Rightarrow> (int \<rightharpoonup> metadata) \<Rightarrow> py_error option \<times> (int \<rightharpoonup> metadata)"
where
  "store_metadata doc start_idx i [] md = (None, md)"
| "store_metadata doc start_idx i (c # cs) md =
     (case chunk_metadata doc i c of
        None \<Rightarrow> (Some KeyError, md)
      | Some m \<Rightarrow> store_metadata doc start_idx (i + 1) cs (md(int (start_idx + i) \<mapsto> m)))"

text \<open>
  \<open>VectorStore._add_to_faiss\<close>. Every exception inside the \<open>try\<close> block is caught and the
  method returns \<open>False\<close>; the store keeps whatever had been changed before the exception.
\<close>

definition add_to_faiss ::
  "disk_outcome \<Rightarrow> vector_store \<Rightarrow> string \<Rightarrow> chunk list \<Rightarrow> real list list \<Rightarrow> bool \<times> vector_store"
where
  "add_to_faiss io vs doc chunks embeddings =
     (case np_array embeddings of
        Inl e \<Rightarrow> (False, vs)
      | Inr embedding_array \<Rightarrow>
          (let start_idx = ntotal (index vs)
           in case IndexFlatL2_add (index vs) embedding_array of
                Inl e \<Rightarrow> (False, vs)
              | Inr ix \<Rightarrow>
                  (case store_metadata doc start_idx 0 chunks (metadata vs) of
                     (Some e, md) \<Rightarrow> (False, vs\<lparr>index := ix, metadata := md\<rparr>)
                   | (None, md) \<Rightarrow>
                       (if io = WriteIndexFails
                        then (False, vs\<lparr>index := ix, metadata := md\<rparr>)
                        else if io = SaveJsonFails
                        then (False, vs\<lparr>index := ix, metadata := md, disk_index := Some ix\<rparr>)
                        else (True, vs\<lparr>index := ix, metadata := md,
                                       disk_index := Some ix, disk_metadata := Some md\<rparr>)))))"

text \<open>
  The MongoDB backend. A stored document is the metadata of a chunk together with its
  vector; the collection is the list of its documents in insertion order, and the store
  object keeps the dimension it was constructed with (\<open>self.embedding_dim\<close>, used only to
  create the search index of the collection).
\<close>

record mongo_document = metadata +
  embedding :: "real list"

record mongo_store =
  embedding_dim :: nat
  collection :: "mongo_document list"

text \<open>
  The dictionary that \<open>_add_to_mongodb\<close> builds for one pair of \<open>zip(chunks, embeddings)\<close>;
  \<open>None\<close> stands for the \<open>KeyError\<close> of \<open>chunk["chunk_id"]\<close> or \<open>chunk["text"]\<close>. The default
  of \<open>chunk_index\<close> is 0 here.
\<close>

definition mongo_doc :: "string \<Rightarrow> chunk \<Rightarrow> real list \<Rightarrow> mongo_document option" where
  "mongo_doc doc c e =
     (case c_chunk_id c of
        None \<Rightarrow> None
      | Some cid \<Rightarrow>
          (case c_text c of
             None \<Rightarrow> None
           | Some t \<Rightarrow>
               Some \<lparr>document_id = doc,
                     chunk_id = cid,
                     chunk_index = (case c_chunk_index c of None \<Rightarrow> IntKey 0 | Some k \<Rightarrow> k),
                     chunk_text = t,
                     text_length = (case c_text_length c of None \<Rightarrow> int (length t) | Some n \<Rightarrow> n),
                     token_count = (case c_token_count c of None \<Rightarrow> 0 | Some n \<Rightarrow> n),
                     embedding = e\<rparr>))"

text \<open>
  What \<open>collection.insert_many(documents)\<close> does on a non-empty list: it succeeds, or it
  raises after the server has written the first \<open>k\<close> documents (an ordered bulk insert
  stops at the first error and keeps what it wrote). On an empty list it raises at once.
\<close>

datatype mongo_outcome = InsertOk | InsertFails nat

text \<open>
  \<open>VectorStore._add_to_mongodb\<close>: all documents are built first, then inserted; every
  exception is caught and the method returns \<open>False\<close>. No length of a vector is looked at.
\<close>

definition add_to_mongodb ::
  "mongo_outcome \<Rightarrow> mongo_store \<Rightarrow> string \<Rightarrow> chunk list \<Rightarrow> real list list \<Rightarrow> bool \<times> mongo_store"
where
  "add_to_mongodb mo ms doc chunks embeddings =
     (case those (map (\<lambda>(c, e). mongo_doc doc c e) (zip chunks embeddings)) of
        None \<Rightarrow> (False, ms)
      | Some documents \<Rightarrow>
          if documents = [] then (False, ms)
          else
            (case mo of
               InsertOk \<Rightarrow> (True, ms\<lparr>collection := collection ms @ documents\<rparr>)
             | InsertFails k \<Rightarrow> (False, ms\<lparr>collection := collection ms @ take k documents\<rparr>)))"

text \<open>
  The store object is of one of two kinds, by \<open>self.db_type\<close>: \<open>"faiss"\<close> or \<open>"mongo"\<close> (the
  constructor raises on any other value).
\<close>

datatype vector_db = Faiss vector_store | Mongo mongo_store

text \<open>
  \<open>VectorStore.add_embeddings\<close>: the only check of its own is that there are as many
  chunks as vectors, and that one raises; then it calls the method of the backend.
\<close>

definition add_embeddings ::
  "disk_outcome \<Rightarrow> mongo_outcome \<Rightarrow> vector_db \<Rightarrow> string \<Rightarrow> chunk list \<Rightarrow> real list list
     \<Rightarrow> py_error + bool \<times> vector_db"
where
  "add_embeddings io mo db doc chunks embeddings =
     (if length chunks \<noteq> length embeddings then Inl ValueError
      else
        (case db of
           Faiss vs \<Rightarrow>
             (case add_to_faiss io vs doc chunks embeddings of
                (ok, vs') \<Rightarrow> Inr (ok, Faiss vs'))
         | Mongo ms \<Rightarrow>
             (case add_to_mongodb mo ms doc chunks embeddings of
                (ok, ms') \<Rightarrow> Inr (ok, Mongo ms'))))"

text \<open>
  The loop of \<open>_search_faiss\<close> over the (distance, position) pairs, with the list
  \<open>results\<close> built so far. A Python value is true unless it is \<open>None\<close> or empty.
\<close>

definition truthy :: "string option \<Rightarrow> bool" where
  "truthy doc = (case doc of None \<Rightarrow> False | Some s \<Rightarrow> s \<noteq> [])"

fun search_loop ::
  "(int \<rightharpoonup> metadata) \<Rightarrow> string option \<Rightarrow> int \<Rightarrow> (real \<times> int) list \<Rightarrow> hit list \<Rightarrow> hit list"
where
  "search_loop md doc top_k [] results = results"
| "search_loop md doc top_k ((dst, idx) # rest) results =
     (if idx = - 1 then search_loop md doc top_k rest results
      else case md idx of
        None \<Rightarrow> search_loop md doc top_k rest results
      | Some m \<Rightarrow>
          if truthy doc \<and> Some (document_id m) \<noteq> doc
          then search_loop md doc top_k rest results
          else
            (let similarity' = 1 / (1 + dst);
                 results' = results @
                   [\<lparr>document_id = document_id m, chunk_id = chunk_id m,
                     chunk_index = chunk_index m, chunk_text = chunk_text m,
                     text_length = text_length m, token_count = token_count m,
                     similarity = similarity', distance = dst\<rparr>]
             in if int (length results') \<ge> top_k then results'
                else search_loop md doc top_k rest results'))"

declare search_loop.simps(2) [simp del]

text \<open>
  \<open>VectorStore._search_faiss\<close>: the query is searched with \<open>top_k * 2\<close>; any exception
  gives the empty list.
\<close>

definition search_faiss :: "vector_store \<Rightarrow> real list \<Rightarrow> int \<Rightarrow> string option \<Rightarrow> hit list" where
  "search_faiss vs query_embedding top_k doc =
     (case np_array [query_embedding] of
        Inl e \<Rightarrow> []
      | Inr query_array \<Rightarrow>
          (case IndexFlatL2_search (index vs) query_array (top_k * 2) of
             Inl e \<Rightarrow> []
           | Inr cands \<Rightarrow> search_loop (metadata vs) doc top_k cands []))"

text \<open>\<open>VectorStore.search_similar\<close> on a store with \<open>db_type == "faiss"\<close>.\<close>

definition search_similar :: "vector_store \<Rightarrow> real list \<Rightarrow> int \<Rightarrow> string option \<Rightarrow> hit list" where
  "search_similar vs query_embedding top_k doc = search_faiss vs query_embedding top_k doc"


section \<open>The validator (\<open>services/qa_validator.py\<close>)\<close>

text \<open>
  The validator reaches its two collaborators through the global objects
  \<open>embedder_service\<close> and \<open>vector_store\<close>. They are parameters here:
  \<open>generate_embedding\<close> returns a vector or \<open>None\<close>, and \<open>search_similar\<close> is called as
  \<open>search_similar(embedding, top_k=k, document_id=document_id)\<close>.
\<close>

type_synonym embedder = "string \<Rightarrow> real list option"

type_synonym searcher = "real list \<Rightarrow> int \<Rightarrow> string option \<Rightarrow> hit list"

text \<open>The dictionaries the validator builds. A key that a dictionary may lack is an option.\<close>

record sentence_issue =
  si_sentence :: string
  si_similarity :: real
  si_threshold :: real

record hallucination =
  h_type :: string
  h_severity :: string
  h_description :: string
  h_threshold :: "real option"
  h_actual_similarity :: "real option"
  h_issues :: "sentence_issue list option"

record similar_chunk =
  sc_chunk_id :: string
  sc_similarity :: real
  sc_text_preview :: string

record validation_result =
  valid :: bool
  error :: "string option"
  hallucinations :: "hallucination list"
  overall_similarity :: real
  threshold :: "real option"
  similar_chunks_count :: "nat option"
  top_similar_chunks :: "similar_chunk list option"
  summary_type :: "string option"

text \<open>The dictionary of the two early returns.\<close>

definition error_result :: "string \<Rightarrow> validation_result" where
  "error_result msg =
     \<lparr>valid = False, error = Some msg, hallucinations = [], overall_similarity = 0,
      threshold = None, similar_chunks_count = None, top_similar_chunks = None,
      summary_type = None\<rparr>"

text \<open>\<open>np.mean\<close> and \<open>max\<close> of a list; both are only called on a non-empty list.\<close>

definition np_mean :: "real list \<Rightarrow> real" where
  "np_mean xs = sum_list xs / real (length xs)"

definition py_max :: "real list \<Rightarrow> real" where
  "py_max xs = foldl max (hd xs) (tl xs)"

text \<open>The issue appended when the mean similarity is below the threshold.\<close>

definition low_similarity_issue :: "real \<Rightarrow> real \<Rightarrow> hallucination" where
  "low_similarity_issue similarity_threshold avg_similarity =
     \<lparr>h_type = ''low_similarity'',
      h_severity = (if avg_similarity < 0.5 then ''high'' else ''medium''),
      h_description =
        ''Summary has low similarity ('' @ fmt_2f avg_similarity @ '') to original document'',
      h_threshold = Some similarity_threshold,
      h_actual_similarity = Some avg_similarity,
      h_issues = None\<rparr>"

text \<open>
  The sentence loop, \<^verbatim>\<open>for sentence in sentences[:10]\<close>; the caller passes the first ten
  sentences. The result is the list \<open>sentence_issues\<close> in the order of the appends.
\<close>

fun check_sentences ::
  "embedder \<Rightarrow> searcher \<Rightarrow> real \<Rightarrow> string \<Rightarrow> string list \<Rightarrow> sentence_issue list"
where
  "check_sentences generate_embedding search similarity_threshold doc [] = []"
| "check_sentences generate_embedding search similarity_threshold doc (sentence # rest) =
     (if length (strip sentence) < 20
      then check_sentences generate_embedding search similarity_threshold doc rest
      else case generate_embedding sentence of
        None \<Rightarrow> check_sentences generate_embedding search similarity_threshold doc rest
      | Some sent_embedding \<Rightarrow>
          if sent_embedding = []
          then check_sentences generate_embedding search similarity_threshold doc rest
          else
            (let sent_similar = search sent_embedding 3 (Some doc)
             in if sent_similar = []
                then check_sentences generate_embedding search similarity_threshold doc rest
                else
                  (let max_sim = py_max (map similarity sent_similar)
                   in if max_sim < similarity_threshold
                      then \<lparr>si_sentence = take 100 sentence,
                            si_similarity = max_sim,
                            si_threshold = similarity_threshold\<rparr>
                           # check_sentences generate_embedding search similarity_threshold doc rest
                      else check_sentences generate_embedding search similarity_threshold doc rest)))"

definition sentence_level_issue :: "sentence_issue list \<Rightarrow> hallucination" where
  "sentence_level_issue sentence_issues =
     \<lparr>h_type = ''sentence_level'',
      h_severity = ''medium'',
      h_description =
        ''Found '' @ str_nat (length sentence_issues) @ '' sentences with low similarity'',
      h_threshold = None,
      h_actual_similarity = None,
      h_issues = Some (take 5 sentence_issues)\<rparr>"

text \<open>\<open>QAValidatorService.validate_summary\<close>; \<open>self.similarity_threshold\<close> is a parameter.\<close>

definition validate_summary ::
  "embedder \<Rightarrow> searcher \<Rightarrow> real \<Rightarrow> string \<Rightarrow> string \<Rightarrow> string \<Rightarrow> validation_result"
where
  "validate_summary generate_embedding search similarity_threshold doc summary_text stype =
     (case generate_embedding summary_text of
        None \<Rightarrow> error_result ''Failed to generate summary embedding''
      | Some summary_embedding \<Rightarrow>
          if summary_embedding = []
          then error_result ''Failed to generate summary embedding''
          else
            (let similar_chunks = search summary_embedding 10 (Some doc)
             in if similar_chunks = []
                then error_result ''No matching chunks found in document''
                else
                  (let similarities = map similarity similar_chunks;
                       avg_similarity = np_mean similarities;
                       low = (if avg_similarity < similarity_threshold
                              then [low_similarity_issue similarity_threshold avg_similarity]
                              else []);
                       sentences = split_into_sentences summary_text;
                       sentence_issues =
                         check_sentences generate_embedding search similarity_threshold doc (take 10 sentences);
                       hallucinations' =
                         low @ (if sentence_issues \<noteq> []
                                then [sentence_level_issue sentence_issues] else []);
                       is_valid = (avg_similarity \<ge> similarity_threshold
                                   \<and> length hallucinations' = 0)
                   in \<lparr>valid = is_valid,
                       error = None,
                       hallucinations = hallucinations',
                       overall_similarity = avg_similarity,
                       threshold = Some similarity_threshold,
                       similar_chunks_count = Some (length similar_chunks),
                       top_similar_chunks =
                         Some (map (\<lambda>c. \<lparr>sc_chunk_id = chunk_id c,
                                           sc_similarity = similarity c,
                                           sc_text_preview = take 200 (chunk_text c)\<rparr>)
                                 (take 3 similar_chunks)),
                       summary_type = Some stype\<rparr>)))"

text \<open>
  The \<open>summaries\<close> dictionary: each of the three keys may be missing. A section is a
  dictionary read with \<open>s["summary"]\<close>, which raises \<open>KeyError\<close> when the key is missing.
\<close>

record section_summary =
  sec_summary :: "string option"

record summaries =
  overview :: "string option"
  bullets :: "string list option"
  sections :: "section_summary list option"

record validation_report =
  report_document_id :: string
  overview_validation :: "validation_result option"
  bullets_validation :: "validation_result option"
  sections_validation :: "validation_result option"
  overall_valid :: bool

text \<open>\<open>"\n".join(parts)\<close>.\<close>

fun join_lines :: "string list \<Rightarrow> string" where
  "join_lines [] = []"
| "join_lines [p] = p"
| "join_lines (p # q # ps) = p @ [CHR 0x0A] @ join_lines (q # ps)"

text \<open>
  \<open>QAValidatorService.validate_all_summaries\<close>. The three blocks run in order on the
  \<open>results\<close> dictionary; a \<open>KeyError\<close> in the sections block leaves the method.
\<close>

definition validate_all_summaries ::
  "embedder \<Rightarrow> searcher \<Rightarrow> real \<Rightarrow> string \<Rightarrow> summaries \<Rightarrow> py_error + validation_report"
where
  "validate_all_summaries generate_embedding search similarity_threshold doc summ =
     (let results = \<lparr>report_document_id = doc, overview_validation = None,
                      bullets_validation = None, sections_validation = None,
                      overall_valid = True\<rparr>;
          results =
            (case overview summ of
               None \<Rightarrow> results
             | Some overview_text \<Rightarrow>
                 (let r = validate_summary generate_embedding search similarity_threshold doc
                            overview_text ''overview'';
                      results = results\<lparr>overview_validation := Some r\<rparr>
                  in if \<not> valid r then results\<lparr>overall_valid := False\<rparr> else results));
          results =
            (case bullets summ of
               None \<Rightarrow> results
             | Some bs \<Rightarrow>
                 (let r = validate_summary generate_embedding search similarity_threshold doc
                            (join_lines bs) ''bullets'';
                      results = results\<lparr>bullets_validation := Some r\<rparr>
                  in if \<not> valid r then results\<lparr>overall_valid := False\<rparr> else results))
      in case sections summ of
           None \<Rightarrow> Inr results
         | Some secs \<Rightarrow>
             (case those (map sec_summary (take 5 secs)) of
                None \<Rightarrow> Inl KeyError
              | Some section_texts \<Rightarrow>
                  (let r = validate_summary generate_embedding search similarity_threshold doc
                             (join_lines section_texts) ''sections'';
                       results = results\<lparr>sections_validation := Some r\<rparr>
                   in Inr (if \<not> valid r then results\<lparr>overall_valid := False\<rparr> else results))))"


section \<open>Vocabulary of the properties\<close>

text \<open>A sentence retains trailing punctuation when its last character is one of \<open>.!?\<close>.\<close>

definition retains_trailing_punctuation :: "string \<Rightarrow> bool" where
  "retains_trailing_punctuation s = (s \<noteq> [] \<and> is_punct (last s))"

text \<open>The validation results a report holds, in the order overview, bullets, sections.\<close>

definition produced :: "validation_report \<Rightarrow> validation_result list" where
  "produced rep =
     (case overview_validation rep of None \<Rightarrow> [] | Some r \<Rightarrow> [r]) @
     (case bullets_validation rep of None \<Rightarrow> [] | Some r \<Rightarrow> [r]) @
     (case sections_validation rep of None \<Rightarrow> [] | Some r \<Rightarrow> [r])"

text \<open>
  A sentence of the sentence-level check fails when its embedding is \<open>None\<close> or empty, or
  when the search with its embedding returns no chunk.
\<close>

definition sentence_fails :: "embedder \<Rightarrow> searcher \<Rightarrow> string \<Rightarrow> string \<Rightarrow> bool" where
  "sentence_fails generate_embedding search doc sentence =
     (case generate_embedding sentence of
        None \<Rightarrow> True
      | Some e \<Rightarrow> e = [] \<or> search e 3 (Some doc) = [])"

text \<open>
  The hit that one pass of the search loop appends for the candidate \<open>(dst, idx)\<close>, or
  \<open>None\<close> when the pass ends in \<open>continue\<close>.
\<close>

definition candidate_hit :: "(int \<rightharpoonup> metadata) \<Rightarrow> string option \<Rightarrow> real \<Rightarrow> int \<Rightarrow> hit option" where
  "candidate_hit md doc dst idx =
     (if idx = - 1 then None
      else case md idx of
        None \<Rightarrow> None
      | Some m \<Rightarrow>
          if truthy doc \<and> Some (document_id m) \<noteq> doc then None
          else Some \<lparr>document_id = document_id m, chunk_id = chunk_id m,
                     chunk_index = chunk_index m, chunk_text = chunk_text m,
                     text_length = text_length m, token_count = token_count m,
                     similarity = 1 / (1 + dst), distance = dst\<rparr>)"

text \<open>
  What a search without any document filter returns from a list of candidates: one hit
  for every candidate that has a position and a metadata entry, whatever its document,
  in the order of the candidates.
\<close>

definition unfiltered_hits :: "(int \<rightharpoonup> metadata) \<Rightarrow> (real \<times> int) list \<Rightarrow> hit list" where
  "unfiltered_hits md cands =
     List.map_filter
       (\<lambda>(dst, idx).
          if idx = - 1 then None
          else map_option
                 (\<lambda>m. \<lparr>document_id = document_id m, chunk_id = chunk_id m,
                        chunk_index = chunk_index m, chunk_text = chunk_text m,
                        text_length = text_length m, token_count = token_count m,
                        similarity = 1 / (1 + dst), distance = dst\<rparr>)
                 (md idx))
       cands"

text \<open>A hit whose similarity is the transform of its non-negative distance.\<close>

definition hit_ok :: "hit \<Rightarrow> bool" where
  "hit_ok h = (0 \<le> distance h \<and> similarity h = 1 / (1 + distance h))"

text \<open>A chunk that has both keys the insert reads with \<open>chunk[...]\<close>.\<close>

definition has_keys :: "chunk \<Rightarrow> bool" where
  "has_keys c = (c_chunk_id c \<noteq> None \<and> c_text c \<noteq> None)"

text \<open>
  The vector lists that pass the array conversion and \<open>index.add\<close>: not empty, and every
  vector of the dimension of the index.
\<close>

definition vectors_accepted :: "faiss_index \<Rightarrow> real list list \<Rightarrow> bool" where
  "vectors_accepted ix embeddings =
     (embeddings \<noteq> [] \<and> list_all (\<lambda>v. length v = d ix) embeddings)"

text \<open>The invariant of an index: every stored vector has the dimension of the index.\<close>

definition index_wf :: "faiss_index \<Rightarrow> bool" where
  "index_wf ix = list_all (\<lambda>v. length v = d ix) (xb ix)"

section \<open>Example data\<close>

text \<open>
  A store of dimension 2 holding two chunks of \<open>doc-1\<close> (positions 0 and 2) and one chunk
  of \<open>doc-2\<close> (position 1), and an embedder that fails on the empty text, maps short
  texts to \<open>[1, 0]\<close> and long ones to \<open>[0, 1]\<close>.
\<close>

definition example_meta :: "string \<Rightarrow> string \<Rightarrow> int \<Rightarrow> string \<Rightarrow> metadata" where
  "example_meta doc cid i t =
     \<lparr>document_id = doc, chunk_id = cid, chunk_index = IntKey i, chunk_text = t,
      text_length = int (length t), token_count = 0\<rparr>"

definition example_store :: vector_store where
  "example_store =
     \<lparr>index = \<lparr>d = 2, xb = [[1, 0], [0, 1], [9 / 10, 1 / 10]]\<rparr>,
      metadata = [0 \<mapsto> example_meta ''doc-1'' ''doc-1_chunk_0'' 0 ''Fire damage is covered.'',
                  1 \<mapsto> example_meta ''doc-2'' ''doc-2_chunk_0'' 0 ''Pets are not covered.'',
                  2 \<mapsto> example_meta ''doc-1'' ''doc-1_chunk_1'' 1 ''Flood damage is excluded.''],
      disk_index = None, disk_metadata = None\<rparr>"

definition example_embedder :: embedder where
  "example_embedder s =
     (if s = [] then None else if length s < 30 then Some [1, 0] else Some [0, 1])"

definition example_text :: string where
  "example_text = ''Policy covers fire damage. It excludes flood damage! What about wind?''"

definition example_summaries :: summaries where
  "example_summaries =
     \<lparr>overview = Some ''Fire damage is covered.'',
      bullets = Some [''Fire is covered'', ''Flood is excluded''],
      sections = None\<rparr>"

text \<open>An embedder that fails on one sentence and maps every other text to \<open>[0, 1]\<close>.\<close>

definition flaky_embedder :: embedder where
  "flaky_embedder s =
     (if s = ''Fire damage is covered by the policy'' then None else Some [0, 1])"

definition flaky_text :: string where
  "flaky_text = ''Fire damage is covered by the policy. Short.''"

text \<open>
  Chunks as the chunker writes them, a chunk without its \<open>text\<close> key, and an insert of
  one chunk of each kind into the example store.
\<close>

definition example_chunk :: "string \<Rightarrow> string \<Rightarrow> chunk" where
  "example_chunk cid t =
     \<lparr>c_chunk_id = Some cid, c_chunk_index = None, c_text = Some t,
      c_text_length = None, c_token_count = None\<rparr>"



text \<open>An empty MongoDB store constructed for dimension 2.\<close>

definition example_mongo_store :: mongo_store where
  "example_mongo_store = \<lparr>embedding_dim = 2, collection = []\<rparr>"

section \<open>Properties of the validator\<close>

subsection \<open>Auxiliary facts\<close>

text \<open>\<open>those\<close> fails exactly when an element is missing.\<close>

lemma those_eq_None: "those xs = None \<longleftrightarrow> None \<in> set xs"
  by (induction xs) (auto split: option.splits)

lemma those_eq_Some: "those xs = Some ys \<Longrightarrow> ys = map the xs"
  by (induction xs arbitrary: ys) (auto split: option.splits)

text \<open>The rounding used by \<open>fmt_2f\<close> picks a nearest integer.\<close>

lemma round_half_even_nearest: "\<bar>of_int (round_half_even x) - x\<bar> \<le> 1 / 2"
  unfolding round_half_even_def Let_def by (auto; linarith)

text \<open>
  One pass of the search loop, and the two invariants of the loop: every hit carries the
  transform of a non-negative distance, and the distances of the hits ascend when those
  of the candidates do.
\<close>

lemma search_loop_step:
  "search_loop md doc k ((dst, idx) # rest) res =
     (case candidate_hit md doc dst idx of
        None \<Rightarrow> search_loop md doc k rest res
      | Some h \<Rightarrow>
          if k \<le> int (length res) + 1 then res @ [h]
          else search_loop md doc k rest (res @ [h]))"
  by (simp add: search_loop.simps candidate_hit_def Let_def split: option.splits)

lemma candidate_hit_Some:
  "candidate_hit md doc dst idx = Some h \<Longrightarrow> distance h = dst \<and> similarity h = 1 / (1 + dst)"
  by (auto simp: candidate_hit_def split: if_splits option.splits)

lemma candidate_hit_padding: "candidate_hit md doc dst (- 1) = None"
  by (simp add: candidate_hit_def)


lemma l2sqr_nonneg: "0 \<le> l2sqr x y"
  unfolding l2sqr_def by (rule sum_list_nonneg) auto

lemma search_loop_padding:
  "search_loop md doc k (replicate n (x, - 1)) res = res"
  by (induction n) (simp_all add: search_loop_step candidate_hit_padding)

lemma search_loop_append_padding:
  "search_loop md doc k (cs @ replicate n (x, - 1)) res = search_loop md doc k cs res"
proof (induction cs arbitrary: res)
  case Nil
  show ?case by (simp add: search_loop_padding)
next
  case (Cons c cs)
  obtain dst idx where c: "c = (dst, idx)" by (cases c)
  show ?case
    by (cases "candidate_hit md doc dst idx") (simp_all add: c search_loop_step Cons.IH)
qed

lemma search_loop_hits_ok:
  assumes "\<forall>c \<in> set cands. 0 \<le> fst c" and "\<forall>h \<in> set res. hit_ok h"
  shows "\<forall>h \<in> set (search_loop md doc k cands res). hit_ok h"
  using assms
proof (induction cands arbitrary: res)
  case Nil
  then show ?case by simp
next
  case (Cons c cands)
  obtain dst idx where c: "c = (dst, idx)" by (cases c)
  have nn: "\<forall>c \<in> set cands. 0 \<le> fst c" and dst: "0 \<le> dst"
    using Cons.prems(1) by (simp_all add: c)
  show ?case
  proof (cases "candidate_hit md doc dst idx")
    case None
    with Cons.IH [OF nn Cons.prems(2)] show ?thesis
      by (simp add: c search_loop_step)
  next
    case (Some h)
    have "hit_ok h"
      using candidate_hit_Some [OF Some] dst by (simp add: hit_ok_def)
    then have ok: "\<forall>h' \<in> set (res @ [h]). hit_ok h'"
      using Cons.prems(2) by simp
    with Cons.IH [OF nn ok] Some show ?thesis
      by (simp add: c search_loop_step)
  qed
qed

lemma search_loop_sorted:
  assumes "sorted (map distance res @ map fst cands)"
  shows "sorted (map distance (search_loop md doc k cands res))"
  using assms
proof (induction cands arbitrary: res)
  case Nil
  then show ?case by simp
next
  case (Cons c cands)
  obtain dst idx where c: "c = (dst, idx)" by (cases c)
  have skip: "sorted (map distance res @ map fst cands)"
    using Cons.prems by (auto simp: sorted_append)
  show ?case
  proof (cases "candidate_hit md doc dst idx")
    case None
    with Cons.IH [OF skip] show ?thesis
      by (simp add: c search_loop_step)
  next
    case (Some h)
    have dh: "distance h = dst"
      using candidate_hit_Some [OF Some] by simp
    have keep: "sorted (map distance (res @ [h]) @ map fst cands)"
      using Cons.prems by (simp add: c dh)
    have now: "sorted (map distance (res @ [h]))"
      using keep by (simp add: sorted_append)
    from Cons.IH [OF keep] now Some show ?thesis
      by (simp add: c search_loop_step)
  qed
qed


lemma hit_ok_bounds: "hit_ok h \<Longrightarrow> 0 < similarity h \<and> similarity h \<le> 1"
  by (simp add: hit_ok_def)

lemma hit_ok_antimono:
  assumes "hit_ok a" and "hit_ok b" and "distance a \<le> distance b"
  shows "similarity b \<le> similarity a"
proof -
  have "1 / (1 + distance b) \<le> 1 / (1 + distance a)"
    using assms by (intro frac_le) (simp_all add: hit_ok_def)
  then show ?thesis using assms by (simp add: hit_ok_def)
qed

lemma similarities_descend:
  assumes "sorted (map distance hs)" and "\<forall>h \<in> set hs. hit_ok h"
  shows "sorted_wrt (\<lambda>a b. a \<ge> b) (map similarity hs)"
proof -
  have "sorted_wrt (\<lambda>a b. distance a \<le> distance b) hs"
    using assms(1) by (simp add: sorted_map)
  then have "sorted_wrt (\<lambda>a b. similarity a \<ge> similarity b) hs"
    by (rule sorted_wrt_mono_rel [rotated]) (use assms(2) hit_ok_antimono in blast)
  then show ?thesis by (simp add: sorted_wrt_map)
qed


lemma IndexFlatL2_search_shape:
  assumes "IndexFlatL2_search ix x k = Inr cands"
  shows "\<exists>cs n. cands = cs @ replicate n (FLT_MAX, - 1)
           \<and> sorted (map fst cs) \<and> (\<forall>c \<in> set cs. 0 \<le> fst c)"
proof -
  from assms obtain n m q qs where x: "x = Array2 n m (q # qs)"
    by (auto simp: IndexFlatL2_search_def split: ndarray.splits list.splits)
  let ?scored = "map (\<lambda>(i, v). (l2sqr q v, int i)) (enumerate 0 (xb ix))"
  let ?found = "take (nat k) (sort_key fst ?scored)"
  from assms have cands: "cands = ?found @ replicate (nat k - length ?found) (FLT_MAX, - 1)"
    by (simp add: IndexFlatL2_search_def x Let_def split: if_splits)
  have "sorted (map fst (sort_key fst ?scored))"
    by (rule sorted_sort_key)
  then have "sorted (take (nat k) (map fst (sort_key fst ?scored)))"
    by (rule sorted_wrt_take)
  then have s: "sorted (map fst ?found)"
    by (simp only: take_map)
  have "\<forall>c \<in> set ?scored. 0 \<le> fst c"
    by (auto simp: l2sqr_nonneg)
  then have "\<forall>c \<in> set (sort_key fst ?scored). 0 \<le> fst c"
    by simp
  then have n: "\<forall>c \<in> set ?found. 0 \<le> fst c"
    by (meson in_set_takeD)
  from cands s n show ?thesis by blast
qed

lemma search_faiss_hits:
  "(\<forall>h \<in> set (search_faiss vs q k doc). hit_ok h)
   \<and> sorted (map distance (search_faiss vs q k doc))"
proof (cases "IndexFlatL2_search (index vs) (Array2 1 (length q) [q]) (k * 2)")
  case (Inl e)
  then show ?thesis by (simp add: search_faiss_def np_array_def)
next
  case (Inr cands)
  then obtain cs n where cands: "cands = cs @ replicate n (FLT_MAX, - 1)"
    and s: "sorted (map fst cs)" and nn: "\<forall>c \<in> set cs. 0 \<le> fst c"
    using IndexFlatL2_search_shape by blast
  have r: "search_faiss vs q k doc = search_loop (metadata vs) doc k cs []"
    using Inr by (simp add: search_faiss_def np_array_def cands search_loop_append_padding)
  have "\<forall>h \<in> set (search_loop (metadata vs) doc k cs []). hit_ok h"
    by (rule search_loop_hits_ok) (use nn in simp_all)
  moreover have "sorted (map distance (search_loop (metadata vs) doc k cs []))"
    by (rule search_loop_sorted) (use s in simp)
  ultimately show ?thesis by (simp only: r)
qed

lemma candidate_hit_falsy:
  "\<not> truthy doc \<Longrightarrow> candidate_hit md doc dst idx = candidate_hit md None dst idx"
  by (simp add: candidate_hit_def truthy_def split: option.splits)

lemma unfiltered_hits_Nil: "unfiltered_hits md [] = []"
  by (simp add: unfiltered_hits_def map_filter_simps)

lemma unfiltered_hits_Cons:
  "unfiltered_hits md ((dst, idx) # cs) =
     (case candidate_hit md None dst idx of
        None \<Rightarrow> unfiltered_hits md cs
      | Some h \<Rightarrow> h # unfiltered_hits md cs)"
  by (simp add: unfiltered_hits_def map_filter_simps candidate_hit_def truthy_def
           split: option.splits)

lemma search_loop_unfiltered:
  assumes "\<not> truthy doc" and "int (length res) < k"
  shows "search_loop md doc k cands res = take (nat k) (res @ unfiltered_hits md cands)"
  using assms(2)
proof (induction cands arbitrary: res)
  case Nil
  then show ?case by (simp add: unfiltered_hits_Nil)
next
  case (Cons c cands)
  obtain dst idx where c: "c = (dst, idx)" by (cases c)
  show ?case
  proof (cases "candidate_hit md None dst idx")
    case None
    with Cons show ?thesis
      by (simp add: c search_loop_step unfiltered_hits_Cons candidate_hit_falsy [OF assms(1)])
  next
    case (Some h)
    show ?thesis
    proof (cases "k \<le> int (length res) + 1")
      case True
      with Cons.prems have "nat k = length res + 1" by linarith
      with True Some show ?thesis
        by (simp add: c search_loop_step unfiltered_hits_Cons candidate_hit_falsy [OF assms(1)])
    next
      case False
      then have "int (length (res @ [h])) < k" by simp
      from Cons.IH [OF this] False Some show ?thesis
        by (simp add: c search_loop_step unfiltered_hits_Cons candidate_hit_falsy [OF assms(1)])
    qed
  qed
qed

text \<open>
  Inserting: what the array conversion and \<open>index.add\<close> accept, and what the metadata
  loop has written when it stops after \<open>n\<close> chunks.
\<close>

lemma np_array_rows:
  assumes "np_array rows = Inr a"
  shows "(rows = [] \<and> a = Array1)
       \<or> (\<exists>m. rows \<noteq> [] \<and> a = Array2 (length rows) m rows \<and> (\<forall>r \<in> set rows. length r = m))"
  using assms
  by (cases rows) (auto simp: np_array_def list_all_iff split: if_splits)

lemma IndexFlatL2_add_rows:
  assumes "np_array rows = Inr a" and "IndexFlatL2_add ix a = Inr ix'"
  shows "ix' = ix\<lparr>xb := xb ix @ rows\<rparr> \<and> (\<forall>r \<in> set rows. length r = d ix)"
proof -
  from assms(2) have "a \<noteq> Array1"
    by (auto simp: IndexFlatL2_add_def)
  with np_array_rows [OF assms(1)] obtain m where
    a: "a = Array2 (length rows) m rows" and m: "\<forall>r \<in> set rows. length r = m"
    by blast
  from assms(2) have "m = d ix" and "ix' = ix\<lparr>xb := xb ix @ rows\<rparr>"
    by (simp_all add: IndexFlatL2_add_def a split: if_splits)
  with m show ?thesis by simp
qed

text \<open>
  Inserting: which chunks and vector lists the two backends accept, what the metadata
  loop has written when it stops, and the result of each backend's insert as a function
  of its arguments.
\<close>

lemma chunk_metadata_None: "chunk_metadata doc i c = None \<longleftrightarrow> \<not> has_keys c"
  by (auto simp: chunk_metadata_def has_keys_def split: option.splits)

lemma mongo_doc_None: "mongo_doc doc c e = None \<longleftrightarrow> \<not> has_keys c"
  by (auto simp: mongo_doc_def has_keys_def split: option.splits)

lemma mongo_doc_embedding: "mongo_doc doc c e = Some m \<Longrightarrow> embedding m = e"
  by (auto simp: mongo_doc_def split: option.splits)

lemma vectors_accepted_add:
  assumes "vectors_accepted ix embeddings"
  shows "np_array embeddings = Inr (Array2 (length embeddings) (d ix) embeddings)"
    and "IndexFlatL2_add ix (Array2 (length embeddings) (d ix) embeddings)
           = Inr (ix\<lparr>xb := xb ix @ embeddings\<rparr>)"
  using assms
  by (cases embeddings; simp add: vectors_accepted_def np_array_def IndexFlatL2_add_def
        list_all_iff)+

lemma vectors_rejected_add:
  assumes "\<not> vectors_accepted ix embeddings" and "np_array embeddings = Inr a"
  shows "\<exists>e. IndexFlatL2_add ix a = Inl e"
proof (cases "IndexFlatL2_add ix a")
  case (Inl e)
  then show ?thesis by blast
next
  case (Inr ix')
  from IndexFlatL2_add_rows [OF assms(2) Inr] have all: "\<forall>r \<in> set embeddings. length r = d ix"
    by simp
  from Inr have "a \<noteq> Array1" by (auto simp: IndexFlatL2_add_def)
  with np_array_rows [OF assms(2)] have "embeddings \<noteq> []" by auto
  with all assms(1) show ?thesis by (simp add: vectors_accepted_def list_all_iff)
qed

lemma add_to_faiss_rejected:
  assumes "\<not> vectors_accepted (index vs) embeddings"
  shows "add_to_faiss io vs doc chunks embeddings = (False, vs)"
proof (cases "np_array embeddings")
  case (Inl e)
  then show ?thesis by (simp add: add_to_faiss_def)
next
  case (Inr a)
  from vectors_rejected_add [OF assms Inr] obtain e where "IndexFlatL2_add (index vs) a = Inl e" ..
  with Inr show ?thesis by (simp add: add_to_faiss_def)
qed

lemma store_metadata_result:
  assumes "store_metadata doc start i cs md = (err, md')"
  shows "(err = None \<longleftrightarrow> list_all has_keys cs)
         \<and> (\<forall>j < length (takeWhile has_keys cs).
               md' (int (start + i + j)) = chunk_metadata doc (i + j) (cs ! j))
         \<and> (\<forall>k. (\<forall>j < length (takeWhile has_keys cs). k \<noteq> int (start + i + j))
                \<longrightarrow> md' k = md k)"
  using assms
proof (induction cs arbitrary: i md)
  case Nil
  then show ?case by simp
next
  case (Cons c cs)
  show ?case
  proof (cases "chunk_metadata doc i c")
    case None
    then have nk: "\<not> has_keys c" by (simp add: chunk_metadata_None)
    from Cons.prems None have "err = Some KeyError" and "md' = md" by simp_all
    with nk show ?thesis by simp
  next
    case (Some m)
    then have k: "has_keys c" using chunk_metadata_None [of doc i c] by simp
    let ?md = "md(int (start + i) \<mapsto> m)"
    let ?n = "length (takeWhile has_keys cs)"
    from Cons.prems Some have "store_metadata doc start (i + 1) cs ?md = (err, md')"
      by simp
    from Cons.IH [OF this] have e: "err = None \<longleftrightarrow> list_all has_keys cs"
      and w: "\<And>j. j < ?n \<Longrightarrow>
                md' (int (start + (i + 1) + j)) = chunk_metadata doc (i + 1 + j) (cs ! j)"
      and u: "\<And>k. (\<forall>j < ?n. k \<noteq> int (start + (i + 1) + j)) \<Longrightarrow> md' k = ?md k"
      by blast+
    have first: "md' (int (start + i)) = Some m"
      using u [of "int (start + i)"] by simp
    have b: "err = None \<longleftrightarrow> list_all has_keys (c # cs)"
      using e k by simp
    have c: "md' (int (start + i + j)) = chunk_metadata doc (i + j) ((c # cs) ! j)"
      if "j < Suc ?n" for j
    proof (cases j)
      case 0
      with Some first show ?thesis by simp
    next
      case (Suc j')
      with that have "j' < ?n" by simp
      from w [OF this] Suc show ?thesis by simp
    qed
    have d: "md' k = md k" if kk: "\<forall>j < Suc ?n. k \<noteq> int (start + i + j)" for k
    proof -
      have "\<forall>j < ?n. k \<noteq> int (start + (i + 1) + j)"
      proof (intro allI impI)
        fix j assume "j < ?n"
        then have "Suc j < Suc ?n" by simp
        with kk have "k \<noteq> int (start + i + Suc j)" by blast
        then show "k \<noteq> int (start + (i + 1) + j)" by simp
      qed
      then have "md' k = ?md k" by (rule u)
      moreover have "k \<noteq> int (start + i)"
        using kk [rule_format, of 0] by simp
      ultimately show ?thesis by simp
    qed
    have n: "length (takeWhile has_keys (c # cs)) = Suc ?n"
      using k by simp
    from b c d show ?thesis unfolding n by blast
  qed
qed

lemma add_to_faiss_accepted:
  assumes "vectors_accepted (index vs) embeddings"
  shows "\<exists>vs'. add_to_faiss io vs doc chunks embeddings
                 = (list_all has_keys chunks \<and> io = WritesOk, vs')
     \<and> index vs' = (index vs)\<lparr>xb := xb (index vs) @ embeddings\<rparr>
     \<and> (\<forall>j < length (takeWhile has_keys chunks).
           metadata vs' (int (ntotal (index vs) + j)) = chunk_metadata doc j (chunks ! j))
     \<and> (\<forall>k. (\<forall>j < length (takeWhile has_keys chunks). k \<noteq> int (ntotal (index vs) + j))
            \<longrightarrow> metadata vs' k = metadata vs k)
     \<and> disk_index vs' =
         (if list_all has_keys chunks \<and> io \<noteq> WriteIndexFails then Some (index vs')
          else disk_index vs)
     \<and> disk_metadata vs' =
         (if list_all has_keys chunks \<and> io = WritesOk then Some (metadata vs')
          else disk_metadata vs)"
proof -
  let ?ix = "(index vs)\<lparr>xb := xb (index vs) @ embeddings\<rparr>"
  note acc = vectors_accepted_add [OF assms]
  obtain err md where sm:
    "store_metadata doc (ntotal (index vs)) 0 chunks (metadata vs) = (err, md)"
    by (cases "store_metadata doc (ntotal (index vs)) 0 chunks (metadata vs)")
  from store_metadata_result [OF sm]
  have e: "err = None \<longleftrightarrow> list_all has_keys chunks"
    and w: "\<forall>j < length (takeWhile has_keys chunks).
              md (int (ntotal (index vs) + j)) = chunk_metadata doc j (chunks ! j)"
    and u: "\<forall>k. (\<forall>j < length (takeWhile has_keys chunks). k \<noteq> int (ntotal (index vs) + j))
              \<longrightarrow> md k = metadata vs k"
    by simp_all
  show ?thesis
  proof (cases err)
    case None
    with e have all: "list_all has_keys chunks" by simp
    show ?thesis
    proof (cases io)
      case WritesOk
      have "add_to_faiss io vs doc chunks embeddings =
              (True, vs\<lparr>index := ?ix, metadata := md, disk_index := Some ?ix,
                        disk_metadata := Some md\<rparr>)"
        by (simp add: add_to_faiss_def acc sm None WritesOk)
      with all w u WritesOk show ?thesis by simp
    next
      case WriteIndexFails
      have "add_to_faiss io vs doc chunks embeddings =
              (False, vs\<lparr>index := ?ix, metadata := md\<rparr>)"
        by (simp add: add_to_faiss_def acc sm None WriteIndexFails)
      with all w u WriteIndexFails show ?thesis by simp
    next
      case SaveJsonFails
      have "add_to_faiss io vs doc chunks embeddings =
              (False, vs\<lparr>index := ?ix, metadata := md, disk_index := Some ?ix\<rparr>)"
        by (simp add: add_to_faiss_def acc sm None SaveJsonFails)
      with all w u SaveJsonFails show ?thesis by simp
    qed
  next
    case (Some x)
    with e have nall: "\<not> list_all has_keys chunks" by simp
    have "add_to_faiss io vs doc chunks embeddings =
            (False, vs\<lparr>index := ?ix, metadata := md\<rparr>)"
      by (simp add: add_to_faiss_def acc sm Some)
    with nall w u show ?thesis by simp
  qed
qed


lemma those_map_zip_None:
  assumes "length chunks = length embeddings"
  shows "those (map (\<lambda>(c, e). mongo_doc doc c e) (zip chunks embeddings)) = None
         \<longleftrightarrow> \<not> list_all has_keys chunks"
proof -
  have "None \<in> set (map (\<lambda>(c, e). mongo_doc doc c e) (zip chunks embeddings))
        \<longleftrightarrow> (\<exists>c \<in> set chunks. \<not> has_keys c)"
    using assms
    by (induction chunks embeddings rule: list_induct2)
       (auto simp: mongo_doc_None eq_commute [of None])
  then show ?thesis by (simp add: those_eq_None list_all_iff)
qed

lemma add_to_mongodb_result:
  assumes "length chunks = length embeddings"
  shows "add_to_mongodb mo ms doc chunks embeddings =
     (if chunks = [] \<or> \<not> list_all has_keys chunks then (False, ms)
      else (mo = InsertOk,
            ms\<lparr>collection := collection ms @
                 take (case mo of InsertOk \<Rightarrow> length chunks | InsertFails k \<Rightarrow> k)
                   (map (\<lambda>(c, e). the (mongo_doc doc c e)) (zip chunks embeddings))\<rparr>))"
proof (cases "those (map (\<lambda>(c, e). mongo_doc doc c e) (zip chunks embeddings))")
  case None
  with those_map_zip_None [OF assms, of doc] have "\<not> list_all has_keys chunks" by simp
  with None show ?thesis by (simp add: add_to_mongodb_def)
next
  case (Some ds)
  with those_map_zip_None [OF assms, of doc] have all: "list_all has_keys chunks" by simp
  from those_eq_Some [OF Some]
  have ds: "ds = map (\<lambda>(c, e). the (mongo_doc doc c e)) (zip chunks embeddings)"
    by (simp add: comp_def case_prod_unfold)
  then have len: "length ds = length chunks" using assms by simp
  then have empty: "ds = [] \<longleftrightarrow> chunks = []" by (metis length_0_conv)
  show ?thesis
  proof (cases mo)
    case InsertOk
    with Some all empty len show ?thesis
      by (simp add: add_to_mongodb_def ds [symmetric])
  next
    case (InsertFails k)
    with Some all empty show ?thesis
      by (simp add: add_to_mongodb_def ds [symmetric])
  qed
qed

lemma map_embedding_docs:
  assumes "length chunks = length embeddings" and "list_all has_keys chunks"
  shows "map embedding (map (\<lambda>(c, e). the (mongo_doc doc c e)) (zip chunks embeddings))
         = embeddings"
  using assms
proof (induction chunks embeddings rule: list_induct2)
  case Nil
  then show ?case by simp
next
  case (Cons c cs e es)
  from Cons.prems have "has_keys c" by simp
  then obtain m where m: "mongo_doc doc c e = Some m"
    using mongo_doc_None [of doc c e] by auto
  with mongo_doc_embedding [OF m] Cons show ?case by simp
qed

text \<open>The sentence loop ignores failed sentences and sentences shorter than 20 characters.\<close>

lemma check_sentences_skip_failed:
  "check_sentences g search thr doc ss =
   check_sentences g search thr doc (filter (\<lambda>s. \<not> sentence_fails g search doc s) ss)"
  by (induction ss) (auto simp: sentence_fails_def Let_def split: option.splits)

lemma check_sentences_all_failed:
  "(\<forall>s \<in> set ss. 20 \<le> length (strip s) \<longrightarrow> sentence_fails g search doc s)
   \<Longrightarrow> check_sentences g search thr doc ss = []"
  by (induction ss) (auto simp: sentence_fails_def Let_def split: option.splits)

subsection \<open>Verdicts and error results\<close>

text \<open>
  C1. When the whole-summary embedding succeeded and the search returned at least one
  chunk, the result is valid exactly when the mean similarity reaches the threshold and
  the list of hallucinations is empty; and a mean similarity below the threshold always
  puts a \<open>low_similarity\<close> issue on the list and makes the result invalid.
\<close>

theorem validate_summary_valid_iff:
  assumes "generate_embedding summary_text = Some e" and "e \<noteq> []"
    and "search e 10 (Some doc) \<noteq> []"
  shows "let r = validate_summary generate_embedding search thr doc summary_text stype
         in (valid r \<longleftrightarrow> overall_similarity r \<ge> thr \<and> hallucinations r = [])
          \<and> (overall_similarity r < thr \<longrightarrow>
               (\<exists>h \<in> set (hallucinations r). h_type h = ''low_similarity'') \<and> \<not> valid r)"
  using assms
  by (simp add: validate_summary_def Let_def low_similarity_issue_def)

theorem validate_summary_valid_iff_witness:
  "example_embedder ''Pets and fire.'' = Some [1, 0] \<and> [1, 0 :: real] \<noteq> []
   \<and> search_similar example_store [1, 0] 10 (Some ''doc-2'') \<noteq> []
   \<and> (let r = validate_summary example_embedder (search_similar example_store) (7 / 10)
                ''doc-2'' ''Pets and fire.'' ''overview''
      in (valid r \<longleftrightarrow> overall_similarity r \<ge> 7 / 10 \<and> hallucinations r = [])
       \<and> (overall_similarity r < 7 / 10 \<longrightarrow>
            (\<exists>h \<in> set (hallucinations r). h_type h = ''low_similarity'') \<and> \<not> valid r))"
proof -
  have h1: "example_embedder ''Pets and fire.'' = Some [1, 0]"
    by (simp add: example_embedder_def)
  have h2: "[1, 0 :: real] \<noteq> []"
    by simp
  have h3: "search_similar example_store [1, 0] 10 (Some ''doc-2'') \<noteq> []"
    by code_simp
  from validate_summary_valid_iff
         [where generate_embedding = example_embedder and summary_text = "''Pets and fire.''"
            and e = "[1, 0]" and search = "search_similar example_store" and doc = "''doc-2''"
            and thr = "7 / 10" and stype = "''overview''", OF h1 h2 h3]
       h1 h3
  show ?thesis by simp
qed

text \<open>
  C2. When the whole-summary embedding fails (\<open>None\<close> or an empty vector), or the search
  for the whole summary returns no chunk, the result is invalid, carries a non-empty
  error message, and its list of hallucinations is empty.
\<close>

theorem validate_summary_error_paths:
  assumes "generate_embedding summary_text = None
           \<or> generate_embedding summary_text = Some []
           \<or> (\<exists>e. generate_embedding summary_text = Some e \<and> search e 10 (Some doc) = [])"
  shows "let r = validate_summary generate_embedding search thr doc summary_text stype
         in \<not> valid r \<and> (\<exists>msg. error r = Some msg \<and> msg \<noteq> []) \<and> hallucinations r = []"
  using assms
  by (cases "generate_embedding summary_text")
     (auto simp: validate_summary_def error_result_def Let_def)

theorem validate_summary_error_paths_witness:
  "example_embedder [] = None
   \<and> (let r = validate_summary example_embedder (search_similar example_store) (7 / 10)
                ''doc-1'' [] ''overview''
      in \<not> valid r \<and> (\<exists>msg. error r = Some msg \<and> msg \<noteq> []) \<and> hallucinations r = [])
   \<and> example_embedder ''Pets and fire.'' = Some [1, 0]
   \<and> search_similar example_store [1, 0] 10 (Some ''doc-3'') = []
   \<and> (let r = validate_summary example_embedder (search_similar example_store) (7 / 10)
                ''doc-3'' ''Pets and fire.'' ''overview''
      in \<not> valid r \<and> (\<exists>msg. error r = Some msg \<and> msg \<noteq> []) \<and> hallucinations r = [])"
proof -
  have h1: "example_embedder [] = None"
    by (simp add: example_embedder_def)
  have h2: "example_embedder ''Pets and fire.'' = Some [1, 0]"
    by (simp add: example_embedder_def)
  have h3: "search_similar example_store [1, 0] 10 (Some ''doc-3'') = []"
    by code_simp
  have a: "example_embedder [] = None
           \<or> example_embedder [] = Some []
           \<or> (\<exists>e. example_embedder [] = Some e
                 \<and> search_similar example_store e 10 (Some ''doc-1'') = [])"
    using h1 by simp
  have b: "example_embedder ''Pets and fire.'' = None
           \<or> example_embedder ''Pets and fire.'' = Some []
           \<or> (\<exists>e. example_embedder ''Pets and fire.'' = Some e
                 \<and> search_similar example_store e 10 (Some ''doc-3'') = [])"
    using h2 h3 by simp
  from validate_summary_error_paths
         [where generate_embedding = example_embedder and summary_text = "[]"
            and search = "search_similar example_store" and doc = "''doc-1''"
            and thr = "7 / 10" and stype = "''overview''", OF a]
       validate_summary_error_paths
         [where generate_embedding = example_embedder and summary_text = "''Pets and fire.''"
            and search = "search_similar example_store" and doc = "''doc-3''"
            and thr = "7 / 10" and stype = "''overview''", OF b]
       h1 h2 h3
  show ?thesis by simp
qed

text \<open>
  C3. A report is returned unless one of the first five sections lacks its \<open>summary\<close>
  key. In a returned report \<open>overall_valid\<close> holds exactly when every result that was
  produced is valid; each of the three entries is the validation of the text of its key
  when the key is present (the bullets joined by newlines, the summaries of the first
  five sections joined by newlines) and \<open>None\<close> when the key is missing. With no key at all
  the report has \<open>overall_valid = True\<close>.
\<close>

theorem validate_all_summaries_overall:
  "(case validate_all_summaries generate_embedding search thr doc summ of
      Inl e \<Rightarrow>
        e = KeyError
        \<and> (\<exists>secs. sections summ = Some secs \<and> None \<in> set (map sec_summary (take 5 secs)))
    | Inr rep \<Rightarrow>
        (overall_valid rep \<longleftrightarrow> list_all valid (produced rep))
        \<and> overview_validation rep =
            map_option (\<lambda>t. validate_summary generate_embedding search thr doc t ''overview'')
              (overview summ)
        \<and> bullets_validation rep =
            map_option (\<lambda>bs. validate_summary generate_embedding search thr doc
                              (join_lines bs) ''bullets'')
              (bullets summ)
        \<and> sections_validation rep =
            map_option (\<lambda>secs. validate_summary generate_embedding search thr doc
                                (join_lines (map (\<lambda>s. the (sec_summary s)) (take 5 secs)))
                                ''sections'')
              (sections summ))
   \<and> validate_all_summaries generate_embedding search thr doc
       \<lparr>overview = None, bullets = None, sections = None\<rparr>
     = Inr \<lparr>report_document_id = doc, overview_validation = None, bullets_validation = None,
            sections_validation = None, overall_valid = True\<rparr>"
  by (auto simp: validate_all_summaries_def produced_def Let_def those_eq_None comp_def
           dest!: those_eq_Some split: option.splits sum.splits if_splits)

theorem validate_all_summaries_overall_witness:
  "\<exists>rep. validate_all_summaries example_embedder (search_similar example_store) (7 / 10)
            ''doc-1'' example_summaries = Inr rep
         \<and> (overall_valid rep \<longleftrightarrow> list_all valid (produced rep))
         \<and> overview_validation rep \<noteq> None \<and> bullets_validation rep \<noteq> None
         \<and> sections_validation rep = None"
proof -
  have "\<exists>rep. validate_all_summaries example_embedder (search_similar example_store) (7 / 10)
            ''doc-1'' example_summaries = Inr rep"
    by (simp add: validate_all_summaries_def example_summaries_def Let_def)
  then obtain rep where
    rep: "validate_all_summaries example_embedder (search_similar example_store) (7 / 10)
            ''doc-1'' example_summaries = Inr rep" ..
  from validate_all_summaries_overall
         [where generate_embedding = example_embedder and search = "search_similar example_store"
            and thr = "7 / 10" and doc = "''doc-1''" and summ = example_summaries]
       rep
  show ?thesis by (simp add: example_summaries_def)
qed

text \<open>
  C5 (as the code has it). When the mean similarity is below the threshold, the first
  issue on the list is the \<open>low_similarity\<close> issue; its severity is \<open>high\<close> below 0.5 and
  \<open>medium\<close> otherwise; its description is the fixed sentence around the similarity printed
  with two decimals; the threshold is carried by the issue's own \<open>threshold\<close> key, next to
  the unrounded similarity, and is not part of the description.
\<close>

theorem low_similarity_issue_shape:
  assumes "generate_embedding summary_text = Some e" and "e \<noteq> []"
    and "search e 10 (Some doc) \<noteq> []"
    and "overall_similarity
           (validate_summary generate_embedding search thr doc summary_text stype) < thr"
  shows "let r = validate_summary generate_embedding search thr doc summary_text stype;
             avg = overall_similarity r;
             h = hd (hallucinations r)
         in h_type h = ''low_similarity''
          \<and> h_severity h = (if avg < 0.5 then ''high'' else ''medium'')
          \<and> h_description h =
              ''Summary has low similarity ('' @ fmt_2f avg @ '') to original document''
          \<and> h_threshold h = Some thr
          \<and> h_actual_similarity h = Some avg"
  using assms
  by (simp add: validate_summary_def Let_def low_similarity_issue_def)

theorem low_similarity_issue_shape_witness:
  "example_embedder ''Pets and fire.'' = Some [1, 0] \<and> [1, 0 :: real] \<noteq> []
   \<and> search_similar example_store [1, 0] 10 (Some ''doc-2'') \<noteq> []
   \<and> overall_similarity
       (validate_summary example_embedder (search_similar example_store) (7 / 10)
          ''doc-2'' ''Pets and fire.'' ''overview'') < 7 / 10
   \<and> (let r = validate_summary example_embedder (search_similar example_store) (7 / 10)
                ''doc-2'' ''Pets and fire.'' ''overview'';
          avg = overall_similarity r;
          h = hd (hallucinations r)
      in h_type h = ''low_similarity''
       \<and> h_severity h = (if avg < 0.5 then ''high'' else ''medium'')
       \<and> h_description h =
           ''Summary has low similarity ('' @ fmt_2f avg @ '') to original document''
       \<and> h_threshold h = Some (7 / 10)
       \<and> h_actual_similarity h = Some avg)"
proof -
  have h1: "example_embedder ''Pets and fire.'' = Some [1, 0]"
    by (simp add: example_embedder_def)
  have h2: "[1, 0 :: real] \<noteq> []"
    by simp
  have h3: "search_similar example_store [1, 0] 10 (Some ''doc-2'') \<noteq> []"
    by code_simp
  have h4: "overall_similarity
       (validate_summary example_embedder (search_similar example_store) (7 / 10)
          ''doc-2'' ''Pets and fire.'' ''overview'') < 7 / 10"
    by code_simp
  from low_similarity_issue_shape
         [where generate_embedding = example_embedder and summary_text = "''Pets and fire.''"
            and e = "[1, 0]" and search = "search_similar example_store" and doc = "''doc-2''"
            and thr = "7 / 10" and stype = "''overview''", OF h1 h2 h3 h4]
       h1 h3 h4
  show ?thesis by simp
qed

text \<open>
  The concrete case against the description carrying the threshold: with threshold 0.7
  and mean similarity 1/3 the description is the sentence below, in which no 7 occurs.
\<close>

theorem low_similarity_description_omits_threshold:
  "h_description (hd (hallucinations
      (validate_summary example_embedder (search_similar example_store) (7 / 10)
         ''doc-2'' ''Pets and fire.'' ''overview'')))
   = ''Summary has low similarity (0.33) to original document''
   \<and> CHR ''7'' \<notin> set (h_description (hd (hallucinations
      (validate_summary example_embedder (search_similar example_store) (7 / 10)
         ''doc-2'' ''Pets and fire.'' ''overview''))))"
  by code_simp

text \<open>
  C6 (as the code has it). The example text splits into exactly three sentences. The
  first two have lost their final mark; the third keeps its question mark, because the
  pattern only matches punctuation that is followed by whitespace.
\<close>

theorem split_example_sentences:
  "split_into_sentences example_text =
     [''Policy covers fire damage'', ''It excludes flood damage'', ''What about wind?'']"
  unfolding example_text_def by code_simp

theorem split_example_last_keeps_mark:
  "length (split_into_sentences example_text) = 3
   \<and> retains_trailing_punctuation (split_into_sentences example_text ! 2)"
  unfolding example_text_def by code_simp

subsection \<open>Sentence-level failures\<close>

text \<open>
  C10. In a result that reached the scoring stage the error field is never set, and the
  list of hallucinations is the one computed from the sentences that did not fail: a
  sentence whose embedding fails or whose search returns nothing adds no issue. When
  every sentence of at least 20 characters among the first ten fails, the list holds at
  most the \<open>low_similarity\<close> issue, exactly as for a summary without flagged sentences, and
  validity is decided by the mean similarity alone.
\<close>

theorem failed_sentences_are_skipped:
  assumes "generate_embedding summary_text = Some e" and "e \<noteq> []"
    and "search e 10 (Some doc) \<noteq> []"
  shows "let r = validate_summary generate_embedding search thr doc summary_text stype;
             low = (if overall_similarity r < thr
                    then [low_similarity_issue thr (overall_similarity r)] else []);
             kept = filter (\<lambda>s. \<not> sentence_fails generate_embedding search doc s)
                      (take 10 (split_into_sentences summary_text));
             issues = check_sentences generate_embedding search thr doc kept
         in error r = None
          \<and> hallucinations r = low @ (if issues \<noteq> [] then [sentence_level_issue issues] else [])
          \<and> ((\<forall>s \<in> set (take 10 (split_into_sentences summary_text)).
                 20 \<le> length (strip s) \<longrightarrow> sentence_fails generate_embedding search doc s)
              \<longrightarrow> hallucinations r = low \<and> (valid r \<longleftrightarrow> overall_similarity r \<ge> thr))"
proof -
  let ?ss = "take 10 (split_into_sentences summary_text)"
  have skip: "check_sentences generate_embedding search thr doc ?ss =
        check_sentences generate_embedding search thr doc
          (filter (\<lambda>s. \<not> sentence_fails generate_embedding search doc s) ?ss)"
    by (rule check_sentences_skip_failed)
  have none: "(\<forall>s \<in> set ?ss. 20 \<le> length (strip s) \<longrightarrow> sentence_fails generate_embedding search doc s)
     \<Longrightarrow> check_sentences generate_embedding search thr doc ?ss = []"
    by (rule check_sentences_all_failed)
  show ?thesis
    using assms skip none
    by (auto simp: validate_summary_def Let_def)
qed

theorem failed_sentences_are_skipped_witness:
  "flaky_embedder flaky_text = Some [0, 1] \<and> [0, 1 :: real] \<noteq> []
   \<and> search_similar example_store [0, 1] 10 (Some ''doc-1'') \<noteq> []
   \<and> split_into_sentences flaky_text = [''Fire damage is covered by the policy'', ''Short.'']
   \<and> sentence_fails flaky_embedder (search_similar example_store) ''doc-1''
        ''Fire damage is covered by the policy''
   \<and> list_all (\<lambda>s. 20 \<le> length (strip s)
                     \<longrightarrow> sentence_fails flaky_embedder (search_similar example_store) ''doc-1'' s)
        (take 10 (split_into_sentences flaky_text))
   \<and> (let r = validate_summary flaky_embedder (search_similar example_store) (7 / 10)
                ''doc-1'' flaky_text ''overview''
      in error r = None
       \<and> hallucinations r =
           (if overall_similarity r < 7 / 10
            then [low_similarity_issue (7 / 10) (overall_similarity r)] else [])
       \<and> (valid r \<longleftrightarrow> overall_similarity r \<ge> 7 / 10))"
proof -
  have h1: "flaky_embedder flaky_text = Some [0, 1]"
    by (simp add: flaky_embedder_def flaky_text_def)
  have h2: "[0, 1 :: real] \<noteq> []"
    by simp
  have h3: "search_similar example_store [0, 1] 10 (Some ''doc-1'') \<noteq> []"
    by code_simp
  have h4: "split_into_sentences flaky_text = [''Fire damage is covered by the policy'', ''Short.'']"
    by code_simp
  have h5: "sentence_fails flaky_embedder (search_similar example_store) ''doc-1''
        ''Fire damage is covered by the policy''"
    by (simp add: sentence_fails_def flaky_embedder_def)
  have h6: "\<forall>s \<in> set (take 10 (split_into_sentences flaky_text)).
         20 \<le> length (strip s)
         \<longrightarrow> sentence_fails flaky_embedder (search_similar example_store) ''doc-1'' s"
    unfolding h4 using h5 by (simp add: strip_def is_space_def)
  from failed_sentences_are_skipped
         [where generate_embedding = flaky_embedder and summary_text = flaky_text
            and e = "[0, 1]" and search = "search_similar example_store" and doc = "''doc-1''"
            and thr = "7 / 10" and stype = "''overview''", OF h1 h2 h3]
       h1 h3 h4 h5 h6
  show ?thesis by (simp add: Let_def list_all_iff)
qed

section \<open>Properties of the vector store\<close>

text \<open>
  C4. Every similarity a search returns lies in the interval (0, 1] and is
  \<open>1 / (1 + distance)\<close> of the hit, and the similarities do not increase along the
  result. Distances are real numbers here; the index returns them non-negative and in
  ascending order.
\<close>

theorem search_similarity_range_and_order:
  "(\<forall>h \<in> set (search_similar vs q k doc).
      0 < similarity h \<and> similarity h \<le> 1 \<and> similarity h = 1 / (1 + distance h))
   \<and> sorted_wrt (\<lambda>a b. a \<ge> b) (map similarity (search_similar vs q k doc))"
proof -
  have ok: "\<forall>h \<in> set (search_faiss vs q k doc). hit_ok h"
    and s: "sorted (map distance (search_faiss vs q k doc))"
    using search_faiss_hits [of vs q k doc] by simp_all
  have "\<forall>h \<in> set (search_faiss vs q k doc).
      0 < similarity h \<and> similarity h \<le> 1 \<and> similarity h = 1 / (1 + distance h)"
    using ok hit_ok_bounds by (auto simp: hit_ok_def)
  moreover have "sorted_wrt (\<lambda>a b. a \<ge> b) (map similarity (search_faiss vs q k doc))"
    using s ok by (rule similarities_descend)
  ultimately show ?thesis by (simp only: search_similar_def)
qed

theorem search_similarity_range_and_order_witness:
  "map similarity (search_similar example_store [1, 0] 5 None) = [1, 50 / 51, 1 / 3]
   \<and> list_all (\<lambda>h. 0 < similarity h \<and> similarity h \<le> 1
                     \<and> similarity h = 1 / (1 + distance h))
        (search_similar example_store [1, 0] 5 None)
   \<and> sorted_wrt (\<lambda>a b. a \<ge> b) (map similarity (search_similar example_store [1, 0] 5 None))"
proof -
  have a: "map similarity (search_similar example_store [1, 0] 5 None) = [1, 50 / 51, 1 / 3]"
    by code_simp
  show ?thesis
    unfolding list_all_iff
    by (rule conjI [OF a search_similarity_range_and_order [of example_store "[1, 0]" 5 None]])
qed

text \<open>
  C9. A search whose \<open>document_id\<close> argument is \<open>None\<close> or the empty string applies no
  document filter: the result is the first \<open>top_k\<close> of the hits of all candidates that
  have a metadata entry, whatever document they belong to.
\<close>

theorem search_without_document_filter:
  assumes "doc = None \<or> doc = Some []"
  shows "search_similar vs q k doc =
           (case IndexFlatL2_search (index vs) (Array2 1 (length q) [q]) (k * 2) of
              Inl e \<Rightarrow> []
            | Inr cands \<Rightarrow> take (nat k) (unfiltered_hits (metadata vs) cands))"
proof (cases "IndexFlatL2_search (index vs) (Array2 1 (length q) [q]) (k * 2)")
  case (Inl e)
  then show ?thesis by (simp add: search_similar_def search_faiss_def np_array_def)
next
  case (Inr cands)
  then have k: "int (length ([] :: hit list)) < k"
    by (simp add: IndexFlatL2_search_def split: if_splits)
  have f: "\<not> truthy doc"
    using assms by (auto simp: truthy_def)
  show ?thesis
    using Inr search_loop_unfiltered [OF f k, of "metadata vs" cands]
    by (simp add: search_similar_def search_faiss_def np_array_def)
qed

theorem search_without_document_filter_witness:
  "map document_id (search_similar example_store [1, 0] 5 None) = [''doc-1'', ''doc-1'', ''doc-2'']
   \<and> search_similar example_store [1, 0] 5 None =
       (case IndexFlatL2_search (index example_store) (Array2 1 (length [1, 0 :: real]) [[1, 0]]) (5 * 2) of
          Inl e \<Rightarrow> []
        | Inr cands \<Rightarrow> take (nat 5) (unfiltered_hits (metadata example_store) cands))
   \<and> search_similar example_store [1, 0] 5 (Some []) = search_similar example_store [1, 0] 5 None"
proof -
  have a: "map document_id (search_similar example_store [1, 0] 5 None) = [''doc-1'', ''doc-1'', ''doc-2'']"
    by code_simp
  have n: "(None :: string option) = None \<or> (None :: string option) = Some []"
    by simp
  have e: "Some ([] :: string) = None \<or> Some ([] :: string) = Some []"
    by simp
  from search_without_document_filter [OF n, of example_store "[1, 0]" 5]
       search_without_document_filter [OF e, of example_store "[1, 0]" 5] a
  show ?thesis by simp
qed

text \<open>
  C7 (as the code has it). A call with different numbers of chunks and vectors raises
  \<open>ValueError\<close>. Otherwise, on a FAISS store, a vector whose length differs from the
  dimension of the index makes the call return \<open>False\<close> with the store unchanged (the
  exception of the array conversion or of \<open>index.add\<close> is caught inside the method), and
  every insert keeps the invariant that all stored vectors have the dimension of the
  index. On a MongoDB store no length is checked: when every chunk has its keys and
  \<open>insert_many\<close> succeeds, the call returns \<open>True\<close> and every vector is stored as it was
  given.
\<close>

theorem dimension_mismatch_by_backend:
  "(length chunks \<noteq> length embeddings \<longrightarrow>
      add_embeddings io mo db doc chunks embeddings = Inl ValueError)
   \<and> (length chunks = length embeddings
        \<and> (\<exists>v \<in> set embeddings. length v \<noteq> d (index vs)) \<longrightarrow>
      add_embeddings io mo (Faiss vs) doc chunks embeddings = Inr (False, Faiss vs))
   \<and> (index_wf (index vs) \<longrightarrow>
        (case add_embeddings io mo (Faiss vs) doc chunks embeddings of
           Inl e \<Rightarrow> True
         | Inr (ok, db') \<Rightarrow>
             (case db' of
                Faiss vs' \<Rightarrow> index_wf (index vs') \<and> d (index vs') = d (index vs)
              | Mongo ms' \<Rightarrow> False)))
   \<and> (length chunks = length embeddings \<and> chunks \<noteq> [] \<and> list_all has_keys chunks \<longrightarrow>
        (\<exists>docs. add_embeddings io InsertOk (Mongo ms) doc chunks embeddings
                  = Inr (True, Mongo (ms\<lparr>collection := collection ms @ docs\<rparr>))
               \<and> map embedding docs = embeddings))"
proof (intro conjI impI)
  assume "length chunks \<noteq> length embeddings"
  then show "add_embeddings io mo db doc chunks embeddings = Inl ValueError"
    by (simp add: add_embeddings_def)
next
  assume a: "length chunks = length embeddings
             \<and> (\<exists>v \<in> set embeddings. length v \<noteq> d (index vs))"
  then have "\<not> vectors_accepted (index vs) embeddings"
    by (auto simp: vectors_accepted_def list_all_iff)
  from add_to_faiss_rejected [OF this] a
  show "add_embeddings io mo (Faiss vs) doc chunks embeddings = Inr (False, Faiss vs)"
    by (simp add: add_embeddings_def)
next
  assume wf: "index_wf (index vs)"
  show "case add_embeddings io mo (Faiss vs) doc chunks embeddings of
           Inl e \<Rightarrow> True
         | Inr (ok, db') \<Rightarrow>
             (case db' of
                Faiss vs' \<Rightarrow> index_wf (index vs') \<and> d (index vs') = d (index vs)
              | Mongo ms' \<Rightarrow> False)"
  proof (cases "length chunks = length embeddings")
    case False
    then show ?thesis by (simp add: add_embeddings_def)
  next
    case True
    show ?thesis
    proof (cases "vectors_accepted (index vs) embeddings")
      case False
      from add_to_faiss_rejected [OF this] True wf show ?thesis
        by (simp add: add_embeddings_def)
    next
      case acc: True
      from add_to_faiss_accepted [OF acc, of io doc chunks] obtain vs' where
        r: "add_to_faiss io vs doc chunks embeddings
              = (list_all has_keys chunks \<and> io = WritesOk, vs')"
        and i: "index vs' = (index vs)\<lparr>xb := xb (index vs) @ embeddings\<rparr>"
        by blast
      from acc wf have "index_wf (index vs') \<and> d (index vs') = d (index vs)"
        by (simp add: i index_wf_def vectors_accepted_def)
      with True r show ?thesis by (simp add: add_embeddings_def)
    qed
  qed
next
  assume a: "length chunks = length embeddings \<and> chunks \<noteq> [] \<and> list_all has_keys chunks"
  let ?docs = "map (\<lambda>(c, e). the (mongo_doc doc c e)) (zip chunks embeddings)"
  from a have len: "length chunks = length embeddings" and all: "list_all has_keys chunks"
    by simp_all
  have "add_embeddings io InsertOk (Mongo ms) doc chunks embeddings
          = Inr (True, Mongo (ms\<lparr>collection := collection ms @ ?docs\<rparr>))"
    using a by (simp add: add_embeddings_def add_to_mongodb_result [OF len])
  moreover have "map embedding ?docs = embeddings"
    by (rule map_embedding_docs [OF len all])
  ultimately show "\<exists>docs. add_embeddings io InsertOk (Mongo ms) doc chunks embeddings
                  = Inr (True, Mongo (ms\<lparr>collection := collection ms @ docs\<rparr>))
               \<and> map embedding docs = embeddings"
    by blast
qed

theorem dimension_mismatch_by_backend_witness:
  "length [example_chunk ''doc-3_chunk_0'' ''Theft is covered.''] = length [[1, 2, 3 :: real]]
   \<and> (\<exists>v \<in> set [[1, 2, 3 :: real]]. length v \<noteq> d (index example_store))
   \<and> index_wf (index example_store)
   \<and> list_all has_keys [example_chunk ''doc-3_chunk_0'' ''Theft is covered.'']
   \<and> add_embeddings WritesOk InsertOk (Faiss example_store) ''doc-3''
        [example_chunk ''doc-3_chunk_0'' ''Theft is covered.''] [[1, 2, 3]]
      = Inr (False, Faiss example_store)
   \<and> (\<exists>docs. add_embeddings WritesOk InsertOk (Mongo example_mongo_store) ''doc-3''
                 [example_chunk ''doc-3_chunk_0'' ''Theft is covered.''] [[1, 2, 3]]
               = Inr (True, Mongo (example_mongo_store
                        \<lparr>collection := collection example_mongo_store @ docs\<rparr>))
             \<and> map embedding docs = [[1, 2, 3]])"
proof -
  have h0: "length [example_chunk ''doc-3_chunk_0'' ''Theft is covered.'']
            = length [[1, 2, 3 :: real]]"
    by simp
  have h1: "\<exists>v \<in> set [[1, 2, 3 :: real]]. length v \<noteq> d (index example_store)"
    by (simp add: example_store_def)
  have h2: "index_wf (index example_store)"
    by (simp add: index_wf_def example_store_def)
  have h3: "list_all has_keys [example_chunk ''doc-3_chunk_0'' ''Theft is covered.'']"
    by (simp add: has_keys_def example_chunk_def)
  note t = dimension_mismatch_by_backend
      [where embeddings = "[[1, 2, 3]]" and vs = example_store and io = WritesOk
         and mo = InsertOk and ms = example_mongo_store and doc = "''doc-3''"
         and chunks = "[example_chunk ''doc-3_chunk_0'' ''Theft is covered.'']"]
  from t h0 h1 have a: "add_embeddings WritesOk InsertOk (Faiss example_store) ''doc-3''
        [example_chunk ''doc-3_chunk_0'' ''Theft is covered.''] [[1, 2, 3]]
      = Inr (False, Faiss example_store)"
    by blast
  from t h0 h3 have b: "\<exists>docs. add_embeddings WritesOk InsertOk (Mongo example_mongo_store) ''doc-3''
                 [example_chunk ''doc-3_chunk_0'' ''Theft is covered.''] [[1, 2, 3]]
               = Inr (True, Mongo (example_mongo_store
                        \<lparr>collection := collection example_mongo_store @ docs\<rparr>))
             \<and> map embedding docs = [[1, 2, 3]]"
    by simp
  from h0 h1 h2 h3 a b show ?thesis by blast
qed

text \<open>
  The concrete case: a vector of length 3 offered to stores of dimension 2. On the FAISS
  store the call returns \<open>False\<close> and no error value reaches the caller; on the MongoDB
  store it returns \<open>True\<close> and the vector is in the collection.
\<close>

theorem mismatch_returns_false_or_stores:
  "add_embeddings WritesOk InsertOk (Faiss example_store) ''doc-3''
     [example_chunk ''doc-3_chunk_0'' ''Theft is covered.''] [[1, 2, 3]]
   = Inr (False, Faiss example_store)
   \<and> \<not> isl (add_embeddings WritesOk InsertOk (Faiss example_store) ''doc-3''
     [example_chunk ''doc-3_chunk_0'' ''Theft is covered.''] [[1, 2, 3]])
   \<and> embedding_dim example_mongo_store = 2
   \<and> add_embeddings WritesOk InsertOk (Mongo example_mongo_store) ''doc-3''
     [example_chunk ''doc-3_chunk_0'' ''Theft is covered.''] [[1, 2, 3]]
   = Inr (True, Mongo \<lparr>embedding_dim = 2, collection =
        [\<lparr>document_id = ''doc-3'', chunk_id = ''doc-3_chunk_0'', chunk_index = IntKey 0,
          chunk_text = ''Theft is covered.'', text_length = 17, token_count = 0,
          embedding = [1, 2, 3]\<rparr>]\<rparr>)"
  by (simp add: add_embeddings_def add_to_faiss_def np_array_def IndexFlatL2_add_def
        example_store_def add_to_mongodb_def mongo_doc_def example_chunk_def
        example_mongo_store_def)




end
